theory Spec2Isabelle
  imports Complex_Main
begin

section \<open>JavaScript values decoded from JSON\<close>

text \<open>
  The dashboard reads every backend answer with \<^verbatim>\<open>response.json()\<close> and works on the
  decoded value without any schema check, so the model starts from the decoded value.
  A number is a finite value or one of the two infinities (\<^verbatim>\<open>JSON.parse("1e999")\<close>);
  a decoded value is never \<^verbatim>\<open>NaN\<close>, and \<open>+0\<close> and \<open>-0\<close> are both \<open>Fin 0\<close>.
  An object is the list of its own properties.  \<^verbatim>\<open>undefined\<close> is not a JSON value:
  a value that may be undefined has type \<open>json option\<close>, with \<open>None\<close> for undefined.
\<close>

datatype jsnum = Fin rat | PosInf | NegInf

datatype json =
    JNull
  | JBool bool
  | JNum jsnum
  | JStr string
  | JArr "json list"
  | JObj "(string \<times> json) list"

datatype js_error =
    TypeError
  | SyntaxError
  | NetworkError
  | SearchFailed nat string

text \<open>A step that may throw, followed by the rest of the computation: the first
  exception ends the evaluation.\<close>

definition and_then :: "js_error + 'a \<Rightarrow> ('a \<Rightarrow> js_error + 'b) \<Rightarrow> js_error + 'b" where
  "and_then r f = (case r of Inl e \<Rightarrow> Inl e | Inr x \<Rightarrow> f x)"

text \<open>
  Property access \<^verbatim>\<open>v.key\<close> for a key that no built-in prototype defines and that
  is neither an index nor \<^verbatim>\<open>length\<close> (every key the source reads is of this kind:
  analysis, recommendations, confidence, next_steps, segments, insights).
  Reading a property of \<^verbatim>\<open>null\<close> throws a TypeError; a primitive or an array has
  no such property; an object answers with its own property, if it has one.
\<close>

fun get_prop :: "json \<Rightarrow> string \<Rightarrow> js_error + json option" where
  "get_prop JNull key = Inl TypeError"
| "get_prop (JObj kvs) key = Inr (map_of kvs key)"
| "get_prop v key = Inr None"

text \<open>\<^verbatim>\<open>Array.isArray(v)\<close>, \<^verbatim>\<open>typeof v === 'number'\<close> and the truth value of \<^verbatim>\<open>v\<close>
  in a condition (undefined, null, false, zero and the empty string are falsy).\<close>

fun isArray :: "json option \<Rightarrow> bool" where
  "isArray (Some (JArr xs)) = True"
| "isArray v = False"

fun is_number :: "json option \<Rightarrow> bool" where
  "is_number (Some (JNum n)) = True"
| "is_number v = False"

fun truthy :: "json option \<Rightarrow> bool" where
  "truthy None = False"
| "truthy (Some JNull) = False"
| "truthy (Some (JBool b)) = b"
| "truthy (Some (JNum n)) = (n \<noteq> Fin 0)"
| "truthy (Some (JStr s)) = (s \<noteq> [])"
| "truthy (Some (JArr xs)) = True"
| "truthy (Some (JObj kvs)) = True"

text \<open>The nullish coalescing \<^verbatim>\<open>v ?? d\<close>.\<close>

fun nullish_or :: "json option \<Rightarrow> json \<Rightarrow> json" where
  "nullish_or None d = d"
| "nullish_or (Some JNull) d = d"
| "nullish_or (Some v) d = v"

text \<open>
  \<^verbatim>\<open>String(v)\<close>.  The text of a number is the language's own number formatting, which
  is not part of the repository: it is the parameter \<open>nt\<close>.  An array is the texts of
  its elements joined by commas, with the empty text for \<^verbatim>\<open>null\<close>.  A decoded object
  prints as \<^verbatim>\<open>[object Object]\<close> through the inherited \<^verbatim>\<open>toString\<close>; an own
  property named \<^verbatim>\<open>toString\<close> hides the inherited method and is never callable, and
  the conversion then ends in a TypeError.
\<close>

fun join_comma :: "string list \<Rightarrow> string" where
  "join_comma [] = []"
| "join_comma [s] = s"
| "join_comma (s # t # ss) = s @ '','' @ join_comma (t # ss)"

fun collect :: "(js_error + 'a) list \<Rightarrow> js_error + 'a list" where
  "collect [] = Inr []"
| "collect (Inl e # rs) = Inl e"
| "collect (Inr x # rs) = (case collect rs of Inl e \<Rightarrow> Inl e | Inr xs \<Rightarrow> Inr (x # xs))"

fun js_String :: "(jsnum \<Rightarrow> string) \<Rightarrow> json \<Rightarrow> js_error + string" where
  "js_String nt JNull = Inr ''null''"
| "js_String nt (JBool b) = Inr (if b then ''true'' else ''false'')"
| "js_String nt (JNum n) = Inr (nt n)"
| "js_String nt (JStr s) = Inr s"
| "js_String nt (JArr xs) =
     and_then (collect (map (\<lambda>x. if x = JNull then Inr [] else js_String nt x) xs))
       (\<lambda>ts. Inr (join_comma ts))"
| "js_String nt (JObj kvs) =
     (if ''toString'' \<in> set (map fst kvs) then Inl TypeError else Inr ''[object Object]'')"

text \<open>A value in which no object, at any depth, has an own property named
  \<^verbatim>\<open>toString\<close>: on such a value \<^verbatim>\<open>String\<close> cannot throw.\<close>

fun plain :: "json \<Rightarrow> bool" where
  "plain (JArr xs) = list_all plain xs"
| "plain (JObj kvs) = (''toString'' \<notin> set (map fst kvs) \<and> list_all plain (map snd kvs))"
| "plain v = True"

section \<open>The agent panel: normalising the analysis response\<close>

text \<open>
  \<^verbatim>\<open>
  const normalized: AgentResponse = {
    analysis: String(data.analysis ?? ""),
    recommendations: Array.isArray(data.recommendations)
      ? data.recommendations
      : (data.recommendations ? [String(data.recommendations)] : []),
    confidence: typeof data.confidence === 'number' ? data.confidence : 0,
    next_steps: Array.isArray(data.next_steps)
      ? data.next_steps
      : (data.next_steps ? [String(data.next_steps)] : []),
  };
  \<close>
  The two list fields are the same expression on two properties; \<open>list_field\<close> is
  that expression.  An array is kept as it is, elements included, so the lists hold
  decoded values, not texts.
\<close>

record AgentResponse =
  analysis :: string
  recommendations :: "json list"
  confidence :: jsnum
  next_steps :: "json list"

fun list_field :: "(jsnum \<Rightarrow> string) \<Rightarrow> json option \<Rightarrow> js_error + json list" where
  "list_field nt (Some (JArr xs)) = Inr xs"
| "list_field nt (Some v) =
     (if truthy (Some v) then and_then (js_String nt v) (\<lambda>t. Inr [JStr t]) else Inr [])"
| "list_field nt None = Inr []"

fun confidence_field :: "json option \<Rightarrow> jsnum" where
  "confidence_field (Some (JNum n)) = n"
| "confidence_field v = Fin 0"

definition normalized :: "(jsnum \<Rightarrow> string) \<Rightarrow> json \<Rightarrow> js_error + AgentResponse" where
  "normalized nt data =
     and_then (get_prop data ''analysis'') (\<lambda>a.
     and_then (js_String nt (nullish_or a (JStr []))) (\<lambda>analysis_text.
     and_then (get_prop data ''recommendations'') (\<lambda>r.
     and_then (list_field nt r) (\<lambda>recs.
     and_then (get_prop data ''confidence'') (\<lambda>c.
     and_then (get_prop data ''next_steps'') (\<lambda>n.
     and_then (list_field nt n) (\<lambda>steps.
       Inr \<lparr>analysis = analysis_text, recommendations = recs,
            confidence = confidence_field c, next_steps = steps\<rparr>)))))))"

section \<open>Network calls and asynchronous handlers\<close>

text \<open>
  A call of \<^verbatim>\<open>fetch\<close> is recorded in the state, in the order of the calls: the list
  is the only trace of the network the model keeps.  The promise of a call settles
  later: it is rejected (no connection), or fulfilled with a response of any status.
  \<^verbatim>\<open>response.text()\<close> and \<^verbatim>\<open>response.json()\<close> may reject in turn (\<open>None\<close>); what
  they decode is not computed in the repository and is given with the response.
\<close>

datatype request =
    GET string
  | POST string "(string \<times> json) list"

record response =
  status :: nat
  body_text :: "string option"
  body_json :: "json option"

datatype fetch_result = Rejected | Fulfilled response

definition ok :: "response \<Rightarrow> bool" where
  "ok r = (200 \<le> status r \<and> status r \<le> 299)"

fun decoded :: "fetch_result \<Rightarrow> json option" where
  "decoded Rejected = None"
| "decoded (Fulfilled r) = body_json r"

fun is_GET :: "request \<Rightarrow> bool" where
  "is_GET (GET url) = True"
| "is_GET (POST url body) = False"

text \<open>
  An asynchronous handler runs up to its first \<^verbatim>\<open>await\<close> when it is called and
  resumes when the awaited promises have settled; other handlers run in between.
  Each handler is therefore two functions, \<open>_start\<close> and \<open>_settle\<close>.  The body of a
  \<^verbatim>\<open>try\<close> returns the exception it ends with, if any, and the state it has set so
  far; every \<^verbatim>\<open>catch\<close> clause of the source only logs and sets state, so the handler
  as a whole ends with no exception.
\<close>

definition try_catch_finally ::
  "js_error option \<times> 's \<Rightarrow> (js_error \<Rightarrow> 's \<Rightarrow> 's) \<Rightarrow> ('s \<Rightarrow> 's) \<Rightarrow> js_error option \<times> 's" where
  "try_catch_finally body handler finally_do =
     (case body of
        (None, s) \<Rightarrow> (None, finally_do s)
      | (Some e, s) \<Rightarrow> (None, finally_do (handler e s)))"

text \<open>\<^verbatim>\<open>s.trim()\<close>: white space of the 8-bit range is removed at both ends.\<close>

definition is_space :: "char \<Rightarrow> bool" where
  "is_space c = (of_char c \<in> {9, 10, 11, 12, 13, 32, 160 :: nat})"

definition trim :: "string \<Rightarrow> string" where
  "trim s = rev (dropWhile is_space (rev (dropWhile is_space s)))"

section \<open>The agent panel (AIAgent)\<close>

text \<open>
  The five state variables of the component, and the requests it has issued.
  \<^verbatim>\<open>suggestions\<close> holds the decoded response as it came (\<^verbatim>\<open>setSuggestions(data)\<close>),
  \<^verbatim>\<open>null\<close> at the start.
\<close>

datatype tab = TabChat | TabSuggestions

record agent_state =
  query :: string
  agentResponse :: "AgentResponse option"
  suggestions :: json
  loading :: bool
  activeTab :: tab
  requests :: "request list"

definition agent_init :: agent_state where
  "agent_init = \<lparr>query = [], agentResponse = None, suggestions = JNull, loading = False,
                 activeTab = TabChat, requests = []\<rparr>"

text \<open>
  \<^verbatim>\<open>
  const handleAgentQuery = async () => {
    if (!query.trim()) return;
    setLoading(true);
    try {
      const response = await fetch('http://localhost:8000/agent/analyze', { method: 'POST', ...
        body: JSON.stringify({ query: query.trim(), product_id: productId }) });
      if (response.ok) {
        const data = await response.json();
        const normalized: AgentResponse = { ... };
        setAgentResponse(normalized);
      }
    } catch (error) { console.error('Agent query failed:', error); }
    finally { setLoading(false); }
  };
  \<close>
  The handler does not read \<^verbatim>\<open>loading\<close>.
\<close>

definition handleAgentQuery_start :: "string \<Rightarrow> agent_state \<Rightarrow> agent_state" where
  "handleAgentQuery_start productId s =
     (if trim (query s) = [] then s
      else s\<lparr>loading := True,
             requests := requests s @
               [POST ''http://localhost:8000/agent/analyze''
                  [(''query'', JStr (trim (query s))), (''product_id'', JStr productId)]]\<rparr>)"

definition handleAgentQuery_try ::
  "(jsnum \<Rightarrow> string) \<Rightarrow> fetch_result \<Rightarrow> agent_state \<Rightarrow> js_error option \<times> agent_state" where
  "handleAgentQuery_try nt res s =
     (case res of
        Rejected \<Rightarrow> (Some NetworkError, s)
      | Fulfilled r \<Rightarrow>
          if ok r then
            (case body_json r of
               None \<Rightarrow> (Some SyntaxError, s)
             | Some data \<Rightarrow>
                 (case normalized nt data of
                    Inl e \<Rightarrow> (Some e, s)
                  | Inr v \<Rightarrow> (None, s\<lparr>agentResponse := Some v\<rparr>)))
          else (None, s))"

definition handleAgentQuery_settle ::
  "(jsnum \<Rightarrow> string) \<Rightarrow> fetch_result \<Rightarrow> agent_state \<Rightarrow> js_error option \<times> agent_state" where
  "handleAgentQuery_settle nt res s =
     try_catch_finally (handleAgentQuery_try nt res s) (\<lambda>e s1. s1) (\<lambda>s2. s2\<lparr>loading := False\<rparr>)"

text \<open>
  \<^verbatim>\<open>
  const loadSuggestions = async () => {
    setLoading(true);
    try {
      const response = await fetch(`http://localhost:8000/agent/suggestions/${productId}`);
      if (response.ok) { const data = await response.json(); setSuggestions(data); }
    } catch (error) { console.error('Suggestions failed:', error); }
    finally { setLoading(false); }
  };
  \<close>
\<close>

definition loadSuggestions_start :: "string \<Rightarrow> agent_state \<Rightarrow> agent_state" where
  "loadSuggestions_start productId s =
     s\<lparr>loading := True,
       requests := requests s @ [GET (''http://localhost:8000/agent/suggestions/'' @ productId)]\<rparr>"

definition loadSuggestions_try :: "fetch_result \<Rightarrow> agent_state \<Rightarrow> js_error option \<times> agent_state" where
  "loadSuggestions_try res s =
     (case res of
        Rejected \<Rightarrow> (Some NetworkError, s)
      | Fulfilled r \<Rightarrow>
          if ok r then
            (case body_json r of
               None \<Rightarrow> (Some SyntaxError, s)
             | Some data \<Rightarrow> (None, s\<lparr>suggestions := data\<rparr>))
          else (None, s))"

definition loadSuggestions_settle :: "fetch_result \<Rightarrow> agent_state \<Rightarrow> js_error option \<times> agent_state" where
  "loadSuggestions_settle res s =
     try_catch_finally (loadSuggestions_try res s) (\<lambda>e s1. s1) (\<lambda>s2. s2\<lparr>loading := False\<rparr>)"

text \<open>
  The events of the panel, each handled on the state of the latest render.
  \<^verbatim>\<open>
  <button onClick={() => setActiveTab('chat')} ...>
  <button onClick={() => { setActiveTab('suggestions'); if (!suggestions) loadSuggestions(); }} ...>
  {activeTab === 'chat' && ( ...
    <input value={query} onChange={(e) => setQuery(e.target.value)}
           onKeyPress={(e) => e.key === 'Enter' && handleAgentQuery()} />
    <button onClick={handleAgentQuery} disabled={loading || !query.trim()}> ...
  \<close>
  The query input and the send button exist only on the chat tab; a click on the
  disabled button calls nothing.  The product is a property of the component, given
  with each event: the page renders the component at the same place for every selected
  product, so its state is kept when the property changes.
\<close>

datatype agent_event =
    ClickChatTab
  | ClickSuggestionsTab
  | ChangeQuery string
  | KeyPress string
  | ClickSend
  | AnalyzeSettled fetch_result
  | SuggestionsSettled fetch_result

fun agent_step :: "(jsnum \<Rightarrow> string) \<Rightarrow> string \<Rightarrow> agent_event \<Rightarrow> agent_state \<Rightarrow> agent_state" where
  "agent_step nt productId ClickChatTab s = s\<lparr>activeTab := TabChat\<rparr>"
| "agent_step nt productId ClickSuggestionsTab s =
     (if \<not> truthy (Some (suggestions s))
      then loadSuggestions_start productId (s\<lparr>activeTab := TabSuggestions\<rparr>)
      else s\<lparr>activeTab := TabSuggestions\<rparr>)"
| "agent_step nt productId (ChangeQuery v) s =
     (if activeTab s = TabChat then s\<lparr>query := v\<rparr> else s)"
| "agent_step nt productId (KeyPress k) s =
     (if activeTab s = TabChat \<and> k = ''Enter'' then handleAgentQuery_start productId s else s)"
| "agent_step nt productId ClickSend s =
     (if activeTab s = TabChat \<and> \<not> (loading s \<or> trim (query s) = [])
      then handleAgentQuery_start productId s else s)"
| "agent_step nt productId (AnalyzeSettled res) s = snd (handleAgentQuery_settle nt res s)"
| "agent_step nt productId (SuggestionsSettled res) s = snd (loadSuggestions_settle res s)"

fun agent_run :: "(jsnum \<Rightarrow> string) \<Rightarrow> (string \<times> agent_event) list \<Rightarrow> agent_state \<Rightarrow> agent_state" where
  "agent_run nt [] s = s"
| "agent_run nt ((productId, ev) # evs) s = agent_run nt evs (agent_step nt productId ev s)"

fun is_suggestions_response :: "agent_event \<Rightarrow> bool" where
  "is_suggestions_response (SuggestionsSettled res) = True"
| "is_suggestions_response ev = False"

definition suggestion_calls :: "agent_state \<Rightarrow> nat" where
  "suggestion_calls s = length (filter is_GET (requests s))"

section \<open>The dashboard page (Home)\<close>

record Product =
  product_id :: string
  name :: string
  category :: string
  price :: jsnum
  brand :: string
  description :: string

text \<open>
  The state of the page.  \<open>searchResults\<close>, \<open>salesData\<close> and \<open>forecast\<close> receive
  decoded responses as they are; \<open>segments\<close> and \<open>insights\<close> receive a property of a
  decoded response, which may be undefined.  \<open>calls\<close> lists the requests issued.
\<close>

record home_state =
  searchResults :: json
  selectedProduct :: "Product option"
  salesData :: json
  forecast :: json
  segments :: "json option"
  insights :: "json option"
  page_loading :: bool
  calls :: "request list"

definition home_init :: home_state where
  "home_init = \<lparr>searchResults = JArr [], selectedProduct = None, salesData = JNull,
                forecast = JNull, segments = Some (JArr []), insights = Some (JStr []),
                page_loading = False, calls = []\<rparr>"

definition mockResults :: json where
  "mockResults = JArr
     [JObj [(''product_id'', JStr ''nike_air_max_270''),
            (''name'', JStr ''Nike Air Max 270''),
            (''category'', JStr ''Running Shoes''),
            (''price'', JNum (Fin 150)),
            (''brand'', JStr ''Nike''),
            (''description'', JStr ''Comfortable running shoes with Air Max technology'')],
      JObj [(''product_id'', JStr ''adidas_ultraboost_22''),
            (''name'', JStr ''Adidas Ultraboost 22''),
            (''category'', JStr ''Running Shoes''),
            (''price'', JNum (Fin 180)),
            (''brand'', JStr ''Adidas''),
            (''description'', JStr ''High-performance running shoes with Boost technology'')]]"

text \<open>
  \<^verbatim>\<open>handleSearch\<close>: a response that is not ok is read as text and an Error is thrown
  inside the \<^verbatim>\<open>try\<close>; the \<^verbatim>\<open>catch\<close> clause sets the mock results for every
  exception of the body, a rejected call and an undecodable body included.
\<close>

definition handleSearch_start :: "string \<Rightarrow> home_state \<Rightarrow> home_state" where
  "handleSearch_start q s =
     s\<lparr>page_loading := True,
       calls := calls s @ [POST ''http://localhost:8000/search'' [(''query'', JStr q)]]\<rparr>"

definition handleSearch_try :: "fetch_result \<Rightarrow> home_state \<Rightarrow> js_error option \<times> home_state" where
  "handleSearch_try res s =
     (case res of
        Rejected \<Rightarrow> (Some NetworkError, s)
      | Fulfilled r \<Rightarrow>
          if \<not> ok r then
            (case body_text r of
               None \<Rightarrow> (Some TypeError, s)
             | Some errorText \<Rightarrow> (Some (SearchFailed (status r) errorText), s))
          else
            (case body_json r of
               None \<Rightarrow> (Some SyntaxError, s)
             | Some results \<Rightarrow> (None, s\<lparr>searchResults := results\<rparr>)))"

definition handleSearch_settle :: "fetch_result \<Rightarrow> home_state \<Rightarrow> js_error option \<times> home_state" where
  "handleSearch_settle res s =
     try_catch_finally (handleSearch_try res s)
       (\<lambda>e s1. s1\<lparr>searchResults := mockResults\<rparr>)
       (\<lambda>s2. s2\<lparr>page_loading := False\<rparr>)"

text \<open>
  \<^verbatim>\<open>handleProductSelect\<close>: the selection and the loading flag are set, then the four
  requests are issued at once.  The handler resumes when \<^verbatim>\<open>Promise.all\<close> over the
  four calls, then over the four decodings, has settled: one rejection anywhere rejects
  the whole, and the four setters run only after both.  The status of a response is not
  looked at.  The setters run in order, and reading \<^verbatim>\<open>.segments\<close> or \<^verbatim>\<open>.insights\<close>
  of a decoded \<^verbatim>\<open>null\<close> throws after the earlier setters have run.
\<close>

definition handleProductSelect_start :: "Product \<Rightarrow> home_state \<Rightarrow> home_state" where
  "handleProductSelect_start product s =
     s\<lparr>selectedProduct := Some product,
       page_loading := True,
       calls := calls s @
         [GET (''http://localhost:8000/products/'' @ product_id product @ ''/sales''),
          GET (''http://localhost:8000/products/'' @ product_id product @ ''/forecast''),
          GET (''http://localhost:8000/products/'' @ product_id product @ ''/segments''),
          GET (''http://localhost:8000/products/'' @ product_id product @ ''/insights'')]\<rparr>"

fun all_fulfilled :: "fetch_result list \<Rightarrow> response list option" where
  "all_fulfilled [] = Some []"
| "all_fulfilled (Rejected # rs) = None"
| "all_fulfilled (Fulfilled r # rs) =
     (case all_fulfilled rs of None \<Rightarrow> None | Some xs \<Rightarrow> Some (r # xs))"

fun all_json :: "response list \<Rightarrow> json list option" where
  "all_json [] = Some []"
| "all_json (r # rs) =
     (case body_json r of
        None \<Rightarrow> None
      | Some d \<Rightarrow> (case all_json rs of None \<Rightarrow> None | Some ds \<Rightarrow> Some (d # ds)))"

definition set_fields :: "json \<Rightarrow> json \<Rightarrow> json \<Rightarrow> json \<Rightarrow> home_state \<Rightarrow> js_error option \<times> home_state" where
  "set_fields salesData' forecastData segmentsData insightsData s =
     (let s1 = s\<lparr>salesData := salesData'\<rparr>;
          s2 = s1\<lparr>forecast := forecastData\<rparr>
      in case get_prop segmentsData ''segments'' of
           Inl e \<Rightarrow> (Some e, s2)
         | Inr segs \<Rightarrow>
             (let s3 = s2\<lparr>segments := segs\<rparr>
              in case get_prop insightsData ''insights'' of
                   Inl e \<Rightarrow> (Some e, s3)
                 | Inr ins \<Rightarrow> (None, s3\<lparr>insights := ins\<rparr>)))"

definition handleProductSelect_try ::
  "fetch_result \<Rightarrow> fetch_result \<Rightarrow> fetch_result \<Rightarrow> fetch_result \<Rightarrow> home_state
     \<Rightarrow> js_error option \<times> home_state" where
  "handleProductSelect_try sales_res forecast_res segments_res insights_res s =
     (case all_fulfilled [sales_res, forecast_res, segments_res, insights_res] of
        Some [salesResponse, forecastResponse, segmentsResponse, insightsResponse] \<Rightarrow>
          (case all_json [salesResponse, forecastResponse, segmentsResponse, insightsResponse] of
             Some [salesData', forecastData, segmentsData, insightsData] \<Rightarrow>
               set_fields salesData' forecastData segmentsData insightsData s
           | _ \<Rightarrow> (Some SyntaxError, s))
      | _ \<Rightarrow> (Some NetworkError, s))"

definition handleProductSelect_settle ::
  "fetch_result \<Rightarrow> fetch_result \<Rightarrow> fetch_result \<Rightarrow> fetch_result \<Rightarrow> home_state
     \<Rightarrow> js_error option \<times> home_state" where
  "handleProductSelect_settle sales_res forecast_res segments_res insights_res s =
     try_catch_finally
       (handleProductSelect_try sales_res forecast_res segments_res insights_res s)
       (\<lambda>e s1. s1)
       (\<lambda>s2. s2\<lparr>page_loading := False\<rparr>)"

datatype home_event =
    Search string
  | SearchSettled fetch_result
  | Select Product
  | SelectSettled fetch_result fetch_result fetch_result fetch_result

fun home_step :: "home_event \<Rightarrow> home_state \<Rightarrow> home_state" where
  "home_step (Search q) s = handleSearch_start q s"
| "home_step (SearchSettled res) s = snd (handleSearch_settle res s)"
| "home_step (Select product) s = handleProductSelect_start product s"
| "home_step (SelectSettled r1 r2 r3 r4) s = snd (handleProductSelect_settle r1 r2 r3 r4 s)"

fun home_run :: "home_event list \<Rightarrow> home_state \<Rightarrow> home_state" where
  "home_run [] s = s"
| "home_run (ev # evs) s = home_run evs (home_step ev s)"

fun is_Select :: "home_event \<Rightarrow> bool" where
  "is_Select (Select product) = True"
| "is_Select ev = False"

text \<open>The fields of the page that make up the view of the selected product.\<close>

definition view :: "home_state \<Rightarrow> Product option \<times> json \<times> json \<times> json option \<times> json option" where
  "view s = (selectedProduct s, salesData s, forecast s, segments s, insights s)"

section \<open>Sample inputs\<close>

text \<open>
  The two products of the fallback list as selections, answers of the four analytics
  endpoints that name the product they are for, a response of status 200 whose body
  decodes to a given value, and a number formatting for the places where its result is
  not looked at.
\<close>

definition nike :: Product where
  "nike = \<lparr>product_id = ''nike_air_max_270'', name = ''Nike Air Max 270'',
           category = ''Running Shoes'', price = Fin 150, brand = ''Nike'',
           description = ''Comfortable running shoes with Air Max technology''\<rparr>"

definition adidas :: Product where
  "adidas = \<lparr>product_id = ''adidas_ultraboost_22'', name = ''Adidas Ultraboost 22'',
             category = ''Running Shoes'', price = Fin 180, brand = ''Adidas'',
             description = ''High-performance running shoes with Boost technology''\<rparr>"

definition answer :: "json \<Rightarrow> fetch_result" where
  "answer d = Fulfilled \<lparr>status = 200, body_text = None, body_json = Some d\<rparr>"

definition sales_of :: "string \<Rightarrow> json" where
  "sales_of pid = JObj [(''product_id'', JStr pid), (''dates'', JArr [JStr ''2024-01'']),
                        (''sales'', JArr [JNum (Fin 1000)]), (''units_sold'', JArr [JNum (Fin 10)])]"

definition forecast_of :: "string \<Rightarrow> json" where
  "forecast_of pid = JObj [(''product_id'', JStr pid), (''next_month_forecast'', JNum (Fin 1200)),
                           (''confidence'', JNum (Fin (4 / 5))), (''trend'', JStr ''increasing'')]"

definition segments_of :: "string \<Rightarrow> json" where
  "segments_of pid = JObj [(''segments'', JArr [JObj [(''name'', JStr pid)]])]"

definition insights_of :: "string \<Rightarrow> json" where
  "insights_of pid = JObj [(''insights'', JStr pid)]"

definition suggestions_of :: "string \<Rightarrow> json" where
  "suggestions_of pid = JObj [(''suggestions'', JArr [JStr pid]), (''priority'', JStr ''high'')]"

definition no_digits :: "jsnum \<Rightarrow> string" where
  "no_digits n = []"

section \<open>Facts about the conversions\<close>

lemma collect_ok: "(\<forall>r \<in> set rs. \<exists>x. r = Inr x) \<Longrightarrow> \<exists>xs. collect rs = Inr xs"
  by (induction rs rule: collect.induct) auto

lemma plain_String: "plain v \<Longrightarrow> \<exists>t. js_String nt v = Inr t"
proof (induction nt v rule: js_String.induct)
  case (5 nt xs)
  have "\<forall>r \<in> set (map (\<lambda>x. if x = JNull then Inr [] else js_String nt x) xs). \<exists>t. r = Inr t"
    using 5 by (auto simp: list_all_iff)
  then obtain ts where
    "collect (map (\<lambda>x. if x = JNull then Inr [] else js_String nt x) xs) = Inr ts"
    using collect_ok by blast
  then show ?case by (simp add: and_then_def)
qed auto

lemma plain_map_of: "plain (JObj kvs) \<Longrightarrow> map_of kvs k = Some v \<Longrightarrow> plain v"
  by (auto simp: list_all_iff dest!: map_of_SomeD)

lemma plain_get_prop: "plain data \<Longrightarrow> get_prop data k = Inr (Some v) \<Longrightarrow> plain v"
  by (cases data) (auto simp del: plain.simps dest: plain_map_of)

lemma get_prop_total: "data \<noteq> JNull \<Longrightarrow> \<exists>v. get_prop data k = Inr v"
  by (cases data) auto

lemma plain_nullish:
  assumes "plain data" "get_prop data k = Inr a" "plain d"
  shows "plain (nullish_or a d)"
proof (cases a)
  case None
  then show ?thesis using assms(3) by simp
next
  case (Some x)
  then have "plain x" using assms(1,2) plain_get_prop by blast
  then show ?thesis using Some assms(3) by (cases x) (simp_all del: plain.simps)
qed

lemma plain_list_field:
  assumes "plain data" "get_prop data k = Inr v"
  shows "\<exists>xs. list_field nt v = Inr xs"
proof (cases v)
  case None
  then show ?thesis by simp
next
  case (Some x)
  then have "plain x" using assms plain_get_prop by blast
  then obtain t where "js_String nt x = Inr t" using plain_String by blast
  then show ?thesis using Some by (cases x) (simp_all add: and_then_def)
qed

text \<open>The normalisation returns a record exactly when each of its steps does.\<close>

lemma normalized_Inr:
  "normalized nt data = Inr r \<longleftrightarrow>
     (\<exists>a t rv recs c n steps.
        get_prop data ''analysis'' = Inr a \<and> js_String nt (nullish_or a (JStr [])) = Inr t \<and>
        get_prop data ''recommendations'' = Inr rv \<and> list_field nt rv = Inr recs \<and>
        get_prop data ''confidence'' = Inr c \<and>
        get_prop data ''next_steps'' = Inr n \<and> list_field nt n = Inr steps \<and>
        r = \<lparr>analysis = t, recommendations = recs, confidence = confidence_field c,
             next_steps = steps\<rparr>)"
  unfolding normalized_def and_then_def by (auto split: sum.splits)

lemma normalized_plain:
  assumes "data \<noteq> JNull" "plain data"
  shows "\<exists>r. normalized nt data = Inr r"
proof -
  obtain a where a: "get_prop data ''analysis'' = Inr a"
    using get_prop_total assms(1) by blast
  obtain rv where rv: "get_prop data ''recommendations'' = Inr rv"
    using get_prop_total assms(1) by blast
  obtain c where c: "get_prop data ''confidence'' = Inr c"
    using get_prop_total assms(1) by blast
  obtain n where n: "get_prop data ''next_steps'' = Inr n"
    using get_prop_total assms(1) by blast
  have "plain (nullish_or a (JStr []))"
    using plain_nullish[OF assms(2) a] by simp
  then obtain t where t: "js_String nt (nullish_or a (JStr [])) = Inr t"
    using plain_String by blast
  obtain recs where recs: "list_field nt rv = Inr recs"
    using plain_list_field[OF assms(2) rv] by blast
  obtain steps where steps: "list_field nt n = Inr steps"
    using plain_list_field[OF assms(2) n] by blast
  show ?thesis using a rv c n t recs steps by (simp add: normalized_Inr)
qed

section \<open>The normaliser\<close>

text \<open>
  C8 (as the code has it).  The normalisation is not total: reading a property of a
  decoded \<^verbatim>\<open>null\<close> throws, and so does \<^verbatim>\<open>String\<close> on an object with an own
  \<^verbatim>\<open>toString\<close> property.  It returns a record, with all four fields, for every
  decoded value other than \<^verbatim>\<open>null\<close> in which no object has an own property named
  \<^verbatim>\<open>toString\<close>; the empty object gives the empty text, the two empty lists
  and confidence 0.
\<close>

theorem normalization_total_on_plain_values:
  "(data \<noteq> JNull \<and> plain data \<longrightarrow> (\<exists>r. normalized nt data = Inr r)) \<and>
   normalized nt (JObj []) =
     Inr \<lparr>analysis = [], recommendations = [], confidence = Fin 0, next_steps = []\<rparr>"
proof
  show "data \<noteq> JNull \<and> plain data \<longrightarrow> (\<exists>r. normalized nt data = Inr r)"
    using normalized_plain by blast
  show "normalized nt (JObj []) =
     Inr \<lparr>analysis = [], recommendations = [], confidence = Fin 0, next_steps = []\<rparr>"
    by (simp add: normalized_def and_then_def)
qed

theorem normalization_total_on_plain_values_witness:
  "\<exists>r. normalized no_digits
         (JObj [(''analysis'', JArr [JNum (Fin 1), JNull, JBool True]),
                (''recommendations'', JObj [(''text'', JStr ''x'')]),
                (''confidence'', JStr ''high''),
                (''next_steps'', JNum (Fin 3))]) = Inr r"
  using normalization_total_on_plain_values
    [of "JObj [(''analysis'', JArr [JNum (Fin 1), JNull, JBool True]),
                (''recommendations'', JObj [(''text'', JStr ''x'')]),
                (''confidence'', JStr ''high''),
                (''next_steps'', JNum (Fin 3))]" no_digits]
  by simp

text \<open>
  C8 as written fails on the decoded value \<^verbatim>\<open>null\<close>: the normalisation throws a
  TypeError, the handler catches it, and no record is stored.  It fails in the same way
  on an analysis that is an object with an own \<^verbatim>\<open>toString\<close> property.
\<close>

theorem normalization_raises_on_null:
  "normalized no_digits JNull = Inl TypeError \<and>
   agentResponse (snd (handleAgentQuery_settle no_digits (answer JNull) agent_init)) = None \<and>
   normalized no_digits (JObj [(''analysis'', JObj [(''toString'', JNum (Fin 1))])]) = Inl TypeError"
  by (simp add: normalized_def and_then_def handleAgentQuery_settle_def handleAgentQuery_try_def
      try_catch_finally_def answer_def ok_def agent_init_def)

lemma list_field_shape:
  "list_field nt v =
     (case v of
        None \<Rightarrow> Inr []
      | Some x \<Rightarrow>
          (case x of
             JArr xs \<Rightarrow> Inr xs
           | _ \<Rightarrow> if truthy v then and_then (js_String nt x) (\<lambda>t. Inr [JStr t]) else Inr []))"
  by (cases "(nt, v)" rule: list_field.cases) simp_all

text \<open>
  C5 (as the code has it).  For a decoded value other than \<^verbatim>\<open>null\<close> in which no
  object has an own \<^verbatim>\<open>toString\<close> property, the normalisation returns a record
  whose \<open>recommendations\<close> (and \<open>next_steps\<close>) is: the raw array itself when the
  raw value is an array, its elements unchanged; the one-element list of \<^verbatim>\<open>String\<close>
  of the value when it is a truthy value that is not an array; the empty list when it is
  absent, \<^verbatim>\<open>null\<close> or any other falsy value.
\<close>

theorem string_or_array_normalization:
  assumes "data \<noteq> JNull" and "plain data"
    and "get_prop data ''recommendations'' = Inr v"
    and "get_prop data ''next_steps'' = Inr w"
  shows "\<exists>r. normalized nt data = Inr r \<and>
     (case v of
        Some (JArr xs) \<Rightarrow> recommendations r = xs
      | Some x \<Rightarrow> if truthy v then \<exists>t. js_String nt x = Inr t \<and> recommendations r = [JStr t]
                  else recommendations r = []
      | None \<Rightarrow> recommendations r = []) \<and>
     (case w of
        Some (JArr ys) \<Rightarrow> next_steps r = ys
      | Some y \<Rightarrow> if truthy w then \<exists>t. js_String nt y = Inr t \<and> next_steps r = [JStr t]
                  else next_steps r = []
      | None \<Rightarrow> next_steps r = [])"
proof -
  obtain r where r: "normalized nt data = Inr r"
    using normalized_plain[OF assms(1,2)] by blast
  then have recs: "list_field nt v = Inr (recommendations r)"
    and steps: "list_field nt w = Inr (next_steps r)"
    using assms(3,4) by (auto simp: normalized_Inr)
  have "case v of
        Some (JArr xs) \<Rightarrow> recommendations r = xs
      | Some x \<Rightarrow> if truthy v then \<exists>t. js_String nt x = Inr t \<and> recommendations r = [JStr t]
                  else recommendations r = []
      | None \<Rightarrow> recommendations r = []"
    using recs by (auto simp: list_field_shape and_then_def split: option.splits json.splits sum.splits if_splits)
  moreover have "case w of
        Some (JArr ys) \<Rightarrow> next_steps r = ys
      | Some y \<Rightarrow> if truthy w then \<exists>t. js_String nt y = Inr t \<and> next_steps r = [JStr t]
                  else next_steps r = []
      | None \<Rightarrow> next_steps r = []"
    using steps by (auto simp: list_field_shape and_then_def split: option.splits json.splits sum.splits if_splits)
  ultimately show ?thesis using r by blast
qed

text \<open>The three documented cases: a single text, an array of two texts, the empty
  object.\<close>

theorem string_or_array_normalization_witness:
  "(\<exists>r. normalized no_digits (JObj [(''recommendations'', JStr ''x'')]) = Inr r \<and>
        recommendations r = [JStr ''x''] \<and> next_steps r = []) \<and>
   (\<exists>r. normalized no_digits (JObj [(''recommendations'', JArr [JStr ''a'', JStr ''b''])]) = Inr r \<and>
        recommendations r = [JStr ''a'', JStr ''b''] \<and> next_steps r = []) \<and>
   (\<exists>r. normalized no_digits (JObj []) = Inr r \<and> recommendations r = [] \<and> next_steps r = [])"
  using string_or_array_normalization
      [of "JObj [(''recommendations'', JStr ''x'')]" "Some (JStr ''x'')" None no_digits]
    string_or_array_normalization
      [of "JObj [(''recommendations'', JArr [JStr ''a'', JStr ''b''])]"
          "Some (JArr [JStr ''a'', JStr ''b''])" None no_digits]
    string_or_array_normalization [of "JObj []" None None no_digits]
  by simp

text \<open>
  C5 as written fails on an array whose elements are not texts: the array is stored as
  it is, here with the number 1 in it, and no element is turned into text.
\<close>

theorem array_elements_are_not_coerced:
  "normalized no_digits (JObj [(''recommendations'', JArr [JNum (Fin 1)])]) =
     Inr \<lparr>analysis = [], recommendations = [JNum (Fin 1)], confidence = Fin 0, next_steps = []\<rparr>"
  by (simp add: normalized_def and_then_def)

lemma confidence_field_not_number: "\<not> is_number c \<Longrightarrow> confidence_field c = Fin 0"
  by (cases c rule: confidence_field.cases) simp_all

text \<open>
  C9 (as the code has it).  For a raw response other than \<^verbatim>\<open>null\<close> whose
  \<open>confidence\<close> property is not a number (a text such as \<^verbatim>\<open>"high"\<close>, any other
  value, or no property at all), the confidence expression evaluates to 0 without
  throwing and every record the normalisation returns has confidence 0; the
  normalisation does return a record when no object of the response has an own property
  named \<^verbatim>\<open>toString\<close>.
\<close>

theorem non_numeric_confidence_is_zero:
  assumes "get_prop data ''confidence'' = Inr c" and "\<not> is_number c"
  shows "confidence_field c = Fin 0 \<and>
         (\<forall>r. normalized nt data = Inr r \<longrightarrow> confidence r = Fin 0) \<and>
         (plain data \<longrightarrow> (\<exists>r. normalized nt data = Inr r \<and> confidence r = Fin 0))"
proof -
  have zero: "confidence_field c = Fin 0"
    using assms(2) by (rule confidence_field_not_number)
  have ret: "confidence r = Fin 0" if "normalized nt data = Inr r" for r
    using that assms(1) zero by (auto simp: normalized_Inr)
  have "data \<noteq> JNull" using assms(1) by auto
  then have "\<exists>r. normalized nt data = Inr r" if "plain data"
    using that normalized_plain by blast
  then show ?thesis using zero ret by blast
qed

theorem non_numeric_confidence_is_zero_witness:
  "confidence_field (Some (JStr ''high'')) = Fin 0 \<and>
   (\<exists>r. normalized no_digits (JObj [(''analysis'', JStr ''ok''), (''confidence'', JStr ''high'')]) = Inr r \<and>
        confidence r = Fin 0) \<and>
   (\<exists>r. normalized no_digits (JObj []) = Inr r \<and> confidence r = Fin 0)"
  using non_numeric_confidence_is_zero
      [of "JObj [(''analysis'', JStr ''ok''), (''confidence'', JStr ''high'')]"
          "Some (JStr ''high'')" no_digits]
    non_numeric_confidence_is_zero [of "JObj []" None no_digits]
  by simp

text \<open>
  C9 as written fails on a response whose confidence is the text \<^verbatim>\<open>"high"\<close> and
  whose analysis is an object with an own \<^verbatim>\<open>toString\<close> property: the normalisation
  throws a TypeError.
\<close>

theorem non_numeric_confidence_does_not_prevent_a_crash:
  "normalized no_digits
     (JObj [(''confidence'', JStr ''high''), (''analysis'', JObj [(''toString'', JNum (Fin 1))])]) =
   Inl TypeError"
  by (simp add: normalized_def and_then_def)

text \<open>
  C10.  A \<open>recommendations\<close> or \<open>next_steps\<close> property that is the empty text, the
  number 0 or \<^verbatim>\<open>false\<close> gives the empty list, not a one-element list; a value that is
  not an array is wrapped into a one-element list only when it is truthy.
\<close>

theorem falsy_values_give_empty_list:
  assumes "v = JStr [] \<or> v = JNum (Fin 0) \<or> v = JBool False"
  shows "list_field nt (Some v) = Inr [] \<and>
         (get_prop data ''recommendations'' = Inr (Some v) \<and> normalized nt data = Inr r
            \<longrightarrow> recommendations r = []) \<and>
         (get_prop data ''next_steps'' = Inr (Some v) \<and> normalized nt data = Inr r
            \<longrightarrow> next_steps r = []) \<and>
         (get_prop data ''recommendations'' = Inr (Some v) \<and> plain data
            \<longrightarrow> (\<exists>r'. normalized nt data = Inr r' \<and> recommendations r' = [])) \<and>
         (get_prop data ''next_steps'' = Inr (Some v) \<and> plain data
            \<longrightarrow> (\<exists>r'. normalized nt data = Inr r' \<and> next_steps r' = [])) \<and>
         (\<not> isArray (Some x) \<longrightarrow>
            list_field nt (Some x) =
              (if truthy (Some x) then and_then (js_String nt x) (\<lambda>t. Inr [JStr t]) else Inr []))"
proof -
  have empty: "list_field nt (Some v) = Inr []"
    using assms by auto
  have recs: "recommendations q = []"
    if "get_prop data ''recommendations'' = Inr (Some v)" "normalized nt data = Inr q" for q
    using that empty by (auto simp: normalized_Inr)
  have steps: "next_steps q = []"
    if "get_prop data ''next_steps'' = Inr (Some v)" "normalized nt data = Inr q" for q
    using that empty by (auto simp: normalized_Inr)
  have ex: "\<exists>q. normalized nt data = Inr q" if "get_prop data k = Inr (Some v)" "plain data" for k
  proof -
    have "data \<noteq> JNull" using that(1) by auto
    then show ?thesis using that(2) normalized_plain by blast
  qed
  have wrap: "list_field nt (Some x) =
      (if truthy (Some x) then and_then (js_String nt x) (\<lambda>t. Inr [JStr t]) else Inr [])"
    if "\<not> isArray (Some x)"
    using that by (cases x) simp_all
  show ?thesis
  proof (intro conjI impI)
    show "list_field nt (Some v) = Inr []" by (rule empty)
    show "recommendations r = []"
      if "get_prop data ''recommendations'' = Inr (Some v) \<and> normalized nt data = Inr r"
      using that recs by blast
    show "next_steps r = []"
      if "get_prop data ''next_steps'' = Inr (Some v) \<and> normalized nt data = Inr r"
      using that steps by blast
    show "\<exists>r'. normalized nt data = Inr r' \<and> recommendations r' = []"
      if "get_prop data ''recommendations'' = Inr (Some v) \<and> plain data"
      using that ex recs by blast
    show "\<exists>r'. normalized nt data = Inr r' \<and> next_steps r' = []"
      if "get_prop data ''next_steps'' = Inr (Some v) \<and> plain data"
      using that ex steps by blast
    show "list_field nt (Some x) =
        (if truthy (Some x) then and_then (js_String nt x) (\<lambda>t. Inr [JStr t]) else Inr [])"
      if "\<not> isArray (Some x)"
      using that by (rule wrap)
  qed
qed

theorem falsy_values_give_empty_list_witness:
  "(\<exists>r. normalized no_digits (JObj [(''recommendations'', JStr [])]) = Inr r \<and> recommendations r = []) \<and>
   (\<exists>r. normalized no_digits (JObj [(''next_steps'', JNum (Fin 0))]) = Inr r \<and> next_steps r = []) \<and>
   (\<exists>r. normalized no_digits (JObj [(''recommendations'', JBool False)]) = Inr r \<and> recommendations r = []) \<and>
   list_field no_digits (Some (JBool True)) = Inr [JStr ''true'']"
  using falsy_values_give_empty_list
      [where v = "JStr []" and nt = no_digits and data = "JObj [(''recommendations'', JStr [])]"
         and x = "JBool True"]
    falsy_values_give_empty_list
      [where v = "JNum (Fin 0)" and nt = no_digits and data = "JObj [(''next_steps'', JNum (Fin 0))]"]
    falsy_values_give_empty_list
      [where v = "JBool False" and nt = no_digits
         and data = "JObj [(''recommendations'', JBool False)]"]
  by (simp add: and_then_def)

section \<open>The dashboard page\<close>

lemma settle_delivered:
  assumes "decoded r1 = Some d1" "decoded r2 = Some d2" "decoded r3 = Some d3" "decoded r4 = Some d4"
    and "get_prop d3 ''segments'' = Inr sg" "get_prop d4 ''insights'' = Inr ins"
  shows "handleProductSelect_settle r1 r2 r3 r4 s =
     (None, s\<lparr>salesData := d1, forecast := d2, segments := sg, insights := ins, page_loading := False\<rparr>)"
proof -
  obtain a b c d where r: "r1 = Fulfilled a" "r2 = Fulfilled b" "r3 = Fulfilled c" "r4 = Fulfilled d"
    using assms(1-4) by (cases r1; cases r2; cases r3; cases r4) auto
  then have "body_json a = Some d1" "body_json b = Some d2" "body_json c = Some d3" "body_json d = Some d4"
    using assms(1-4) by auto
  then show ?thesis
    using r assms(5,6)
    by (simp add: handleProductSelect_settle_def handleProductSelect_try_def set_fields_def
        try_catch_finally_def)
qed

lemma settle_failed:
  assumes "decoded r1 = None \<or> decoded r2 = None \<or> decoded r3 = None \<or> decoded r4 = None"
  shows "handleProductSelect_settle r1 r2 r3 r4 s = (None, s\<lparr>page_loading := False\<rparr>)"
proof (cases "all_fulfilled [r1, r2, r3, r4]")
  case None
  then show ?thesis
    by (simp add: handleProductSelect_settle_def handleProductSelect_try_def try_catch_finally_def)
next
  case (Some xs)
  then obtain a b c d where r: "r1 = Fulfilled a" "r2 = Fulfilled b" "r3 = Fulfilled c" "r4 = Fulfilled d"
    by (cases r1; cases r2; cases r3; cases r4) auto
  then have "all_json [a, b, c, d] = None"
    using assms by (auto split: option.splits)
  then show ?thesis using r
    by (simp add: handleProductSelect_settle_def handleProductSelect_try_def try_catch_finally_def)
qed

lemma set_fields_selected: "selectedProduct (snd (set_fields d1 d2 d3 d4 s)) = selectedProduct s"
  by (simp add: set_fields_def Let_def split: sum.splits)

lemma handleProductSelect_try_selected:
  "selectedProduct (snd (handleProductSelect_try r1 r2 r3 r4 s)) = selectedProduct s"
proof (cases "all_fulfilled [r1, r2, r3, r4]")
  case None
  then show ?thesis by (simp add: handleProductSelect_try_def)
next
  case (Some xs)
  then obtain a b c d where r: "r1 = Fulfilled a" "r2 = Fulfilled b" "r3 = Fulfilled c" "r4 = Fulfilled d"
    by (cases r1; cases r2; cases r3; cases r4) auto
  show ?thesis
  proof (cases "all_json [a, b, c, d]")
    case None
    then show ?thesis using r by (simp add: handleProductSelect_try_def)
  next
    case (Some ds)
    then obtain d1 d2 d3 d4 where "all_json [a, b, c, d] = Some [d1, d2, d3, d4]"
      by (auto split: option.splits)
    then show ?thesis using r by (simp add: handleProductSelect_try_def set_fields_selected)
  qed
qed

lemma handleSearch_try_selected:
  "selectedProduct (snd (handleSearch_try res s)) = selectedProduct s"
  by (simp add: handleSearch_try_def split: fetch_result.splits option.splits)

lemma home_step_selected:
  "\<not> is_Select ev \<Longrightarrow> selectedProduct (home_step ev s) = selectedProduct s"
proof (cases ev)
  case (Search q)
  then show ?thesis by (simp add: handleSearch_start_def)
next
  case (SearchSettled res)
  obtain e t where b: "handleSearch_try res s = (e, t)" by (cases "handleSearch_try res s")
  then have "selectedProduct t = selectedProduct s"
    using handleSearch_try_selected[of res s] by simp
  then show ?thesis using SearchSettled b
    by (simp add: handleSearch_settle_def try_catch_finally_def split: option.splits)
next
  case (Select product)
  assume "\<not> is_Select ev"
  then show ?thesis using Select by simp
next
  case (SelectSettled r1 r2 r3 r4)
  obtain e t where b: "handleProductSelect_try r1 r2 r3 r4 s = (e, t)"
    by (cases "handleProductSelect_try r1 r2 r3 r4 s")
  then have "selectedProduct t = selectedProduct s"
    using handleProductSelect_try_selected[of r1 r2 r3 r4 s] by simp
  then show ?thesis using SelectSettled b
    by (simp add: handleProductSelect_settle_def try_catch_finally_def split: option.splits)
qed

lemma home_run_selected:
  "\<forall>ev \<in> set evs. \<not> is_Select ev \<Longrightarrow> selectedProduct (home_run evs s) = selectedProduct s"
  by (induction evs arbitrary: s) (simp_all add: home_step_selected)

text \<open>
  C1 (as the code has it).  For two selections A then B, the selected product of the
  view is B after any events that follow without a further selection, whatever the
  fetches of the two runs return and in whatever order they settle.  When in both runs
  the four calls are fulfilled, the four bodies decode, and reading \<^verbatim>\<open>.segments\<close> of
  the segments body and \<^verbatim>\<open>.insights\<close> of the insights body does not throw (the
  body is not \<^verbatim>\<open>null\<close>), the fields of the final view are those of the run that
  settles last: B's when the run of A settles first, A's when the run of A settles after
  the run of B.  No result is discarded: the handler does not compare the product it was
  started for with the current selection.
\<close>

theorem last_settled_run_wins:
  "((\<forall>ev \<in> set evs. \<not> is_Select ev) \<longrightarrow>
      selectedProduct (home_run (Select A # Select B # evs) s) = Some B) \<and>
   (decoded a1 = Some sales_a \<and> decoded a2 = Some forecast_a \<and>
    decoded a3 = Some segs_a \<and> decoded a4 = Some ins_a \<and>
    get_prop segs_a ''segments'' = Inr segments_a \<and>
    get_prop ins_a ''insights'' = Inr insights_a \<and>
    decoded b1 = Some sales_b \<and> decoded b2 = Some forecast_b \<and>
    decoded b3 = Some segs_b \<and> decoded b4 = Some ins_b \<and>
    get_prop segs_b ''segments'' = Inr segments_b \<and>
    get_prop ins_b ''insights'' = Inr insights_b \<longrightarrow>
      view (home_run [Select A, Select B, SelectSettled a1 a2 a3 a4, SelectSettled b1 b2 b3 b4] s)
        = (Some B, sales_b, forecast_b, segments_b, insights_b) \<and>
      view (home_run [Select A, Select B, SelectSettled b1 b2 b3 b4, SelectSettled a1 a2 a3 a4] s)
        = (Some B, sales_a, forecast_a, segments_a, insights_a))"
proof (intro conjI impI)
  assume "\<forall>ev \<in> set evs. \<not> is_Select ev"
  then have "selectedProduct (home_run evs (home_step (Select B) (home_step (Select A) s))) =
      selectedProduct (home_step (Select B) (home_step (Select A) s))"
    by (rule home_run_selected)
  then show "selectedProduct (home_run (Select A # Select B # evs) s) = Some B"
    by (simp add: handleProductSelect_start_def)
next
  assume h: "decoded a1 = Some sales_a \<and> decoded a2 = Some forecast_a \<and>
    decoded a3 = Some segs_a \<and> decoded a4 = Some ins_a \<and>
    get_prop segs_a ''segments'' = Inr segments_a \<and>
    get_prop ins_a ''insights'' = Inr insights_a \<and>
    decoded b1 = Some sales_b \<and> decoded b2 = Some forecast_b \<and>
    decoded b3 = Some segs_b \<and> decoded b4 = Some ins_b \<and>
    get_prop segs_b ''segments'' = Inr segments_b \<and>
    get_prop ins_b ''insights'' = Inr insights_b"
  have a: "handleProductSelect_settle a1 a2 a3 a4 t =
      (None, t\<lparr>salesData := sales_a, forecast := forecast_a, segments := segments_a,
               insights := insights_a, page_loading := False\<rparr>)" for t
    using h settle_delivered by blast
  have b: "handleProductSelect_settle b1 b2 b3 b4 t =
      (None, t\<lparr>salesData := sales_b, forecast := forecast_b, segments := segments_b,
               insights := insights_b, page_loading := False\<rparr>)" for t
    using h settle_delivered by blast
  show "view (home_run [Select A, Select B, SelectSettled a1 a2 a3 a4, SelectSettled b1 b2 b3 b4] s)
        = (Some B, sales_b, forecast_b, segments_b, insights_b)"
    by (simp add: view_def handleProductSelect_start_def a b)
  show "view (home_run [Select A, Select B, SelectSettled b1 b2 b3 b4, SelectSettled a1 a2 a3 a4] s)
        = (Some B, sales_a, forecast_a, segments_a, insights_a)"
    by (simp add: view_def handleProductSelect_start_def a b)
qed

theorem last_settled_run_wins_witness:
  "selectedProduct (home_run
      [Select nike, Select adidas,
       SelectSettled Rejected Rejected Rejected Rejected,
       SelectSettled (answer (sales_of (product_id adidas))) (answer (forecast_of (product_id adidas)))
         (answer JNull) (answer (insights_of (product_id adidas)))]
      home_init) = Some adidas \<and>
   view (home_run
      [Select nike, Select adidas,
       SelectSettled (answer (sales_of (product_id nike))) (answer (forecast_of (product_id nike)))
         (answer (segments_of (product_id nike))) (answer (insights_of (product_id nike))),
       SelectSettled (answer (sales_of (product_id adidas))) (answer (forecast_of (product_id adidas)))
         (answer (segments_of (product_id adidas))) (answer (insights_of (product_id adidas)))]
      home_init) =
   (Some adidas, sales_of (product_id adidas), forecast_of (product_id adidas),
    Some (JArr [JObj [(''name'', JStr (product_id adidas))]]), Some (JStr (product_id adidas)))"
  using last_settled_run_wins
    [where A = nike and B = adidas and s = home_init
       and evs = "[SelectSettled Rejected Rejected Rejected Rejected,
          SelectSettled (answer (sales_of (product_id adidas))) (answer (forecast_of (product_id adidas)))
            (answer JNull) (answer (insights_of (product_id adidas)))]"
       and ?a1.0 = "answer (sales_of (product_id nike))"
       and ?a2.0 = "answer (forecast_of (product_id nike))"
       and ?a3.0 = "answer (segments_of (product_id nike))"
       and ?a4.0 = "answer (insights_of (product_id nike))"
       and ?b1.0 = "answer (sales_of (product_id adidas))"
       and ?b2.0 = "answer (forecast_of (product_id adidas))"
       and ?b3.0 = "answer (segments_of (product_id adidas))"
       and ?b4.0 = "answer (insights_of (product_id adidas))"
       and sales_a = "sales_of (product_id nike)" and forecast_a = "forecast_of (product_id nike)"
       and segs_a = "segments_of (product_id nike)" and ins_a = "insights_of (product_id nike)"
       and segments_a = "Some (JArr [JObj [(''name'', JStr (product_id nike))]])"
       and insights_a = "Some (JStr (product_id nike))"
       and sales_b = "sales_of (product_id adidas)" and forecast_b = "forecast_of (product_id adidas)"
       and segs_b = "segments_of (product_id adidas)" and ins_b = "insights_of (product_id adidas)"
       and segments_b = "Some (JArr [JObj [(''name'', JStr (product_id adidas))]])"
       and insights_b = "Some (JStr (product_id adidas))"]
  by (simp add: answer_def segments_of_def insights_of_def)

text \<open>
  C1 as written fails when the run of the first selection settles last: the view shows
  the second product with the sales, forecast, segments and insights of the first.
\<close>

theorem stale_results_overwrite_the_view:
  "view (home_run
      [Select nike, Select adidas,
       SelectSettled (answer (sales_of (product_id adidas))) (answer (forecast_of (product_id adidas)))
         (answer (segments_of (product_id adidas))) (answer (insights_of (product_id adidas))),
       SelectSettled (answer (sales_of (product_id nike))) (answer (forecast_of (product_id nike)))
         (answer (segments_of (product_id nike))) (answer (insights_of (product_id nike)))]
      home_init) =
   (Some adidas, sales_of (product_id nike), forecast_of (product_id nike),
    Some (JArr [JObj [(''name'', JStr (product_id nike))]]), Some (JStr (product_id nike))) \<and>
   sales_of (product_id nike) \<noteq> sales_of (product_id adidas)"
  by (simp add: view_def home_init_def handleProductSelect_start_def handleProductSelect_settle_def
      handleProductSelect_try_def set_fields_def try_catch_finally_def answer_def
      segments_of_def insights_of_def sales_of_def nike_def adidas_def)

text \<open>
  C2 (as the code has it).  If one of the four calls is rejected, or one of the four
  bodies does not decode, no field of the view changes and only the loading flag is
  reset: one failure keeps the other three results out of the view.  If all four calls
  are fulfilled, all four bodies decode, and reading \<^verbatim>\<open>.segments\<close> of the segments
  body and \<^verbatim>\<open>.insights\<close> of the insights body does not throw (the body is not
  \<^verbatim>\<open>null\<close>), the four fields are set from them, whatever the status of the
  responses.
\<close>

theorem commit_needs_all_four_results:
  "(decoded r1 = None \<or> decoded r2 = None \<or> decoded r3 = None \<or> decoded r4 = None \<longrightarrow>
      handleProductSelect_settle r1 r2 r3 r4 s = (None, s\<lparr>page_loading := False\<rparr>)) \<and>
   (decoded r1 = Some d1 \<and> decoded r2 = Some d2 \<and> decoded r3 = Some d3 \<and> decoded r4 = Some d4 \<and>
    get_prop d3 ''segments'' = Inr sg \<and> get_prop d4 ''insights'' = Inr ins \<longrightarrow>
      handleProductSelect_settle r1 r2 r3 r4 s =
        (None, s\<lparr>salesData := d1, forecast := d2, segments := sg, insights := ins,
                  page_loading := False\<rparr>))"
  using settle_failed settle_delivered by blast


theorem commit_needs_all_four_results_witness:
  "handleProductSelect_settle (answer (sales_of ''p'')) Rejected (answer (segments_of ''p''))
      (answer (insights_of ''p'')) home_init = (None, home_init\<lparr>page_loading := False\<rparr>) \<and>
   handleProductSelect_settle (answer (sales_of ''p'')) (answer (forecast_of ''p''))
      (answer (segments_of ''p'')) (answer (insights_of ''p'')) home_init =
     (None, home_init\<lparr>salesData := sales_of ''p'', forecast := forecast_of ''p'',
              segments := Some (JArr [JObj [(''name'', JStr ''p'')]]),
              insights := Some (JStr ''p''), page_loading := False\<rparr>)"
  using commit_needs_all_four_results
      [of "answer (sales_of ''p'')" Rejected "answer (segments_of ''p'')" "answer (insights_of ''p'')"
          home_init]
    commit_needs_all_four_results
      [of "answer (sales_of ''p'')" "answer (forecast_of ''p'')" "answer (segments_of ''p'')"
          "answer (insights_of ''p'')" home_init "sales_of ''p''" "forecast_of ''p''"
          "segments_of ''p''" "insights_of ''p''" "Some (JArr [JObj [(''name'', JStr ''p'')]])"
          "Some (JStr ''p'')"]
  by (simp add: answer_def segments_of_def insights_of_def)

text \<open>
  C2 as written fails when a single call is rejected: with the forecast call rejected
  and the other three answered, the sales, segments and insights keep their initial
  values.
\<close>

theorem one_failed_fetch_blocks_the_other_three:
  "view (home_run
      [Select nike,
       SelectSettled (answer (sales_of (product_id nike))) Rejected
         (answer (segments_of (product_id nike))) (answer (insights_of (product_id nike)))]
      home_init) =
   (Some nike, JNull, JNull, Some (JArr []), Some (JStr []))"
  by (simp add: view_def home_init_def handleProductSelect_start_def handleProductSelect_settle_def
      handleProductSelect_try_def try_catch_finally_def answer_def)

lemma try_catch_finally_calls:
  assumes "calls (snd body) = calls s"
    and "\<And>e t. calls (handler e t) = calls t" and "\<And>t. calls (fin t) = calls t"
  shows "calls (snd (try_catch_finally body handler fin)) = calls s"
  using assms by (cases body) (auto simp: try_catch_finally_def split: option.splits)

lemma set_fields_calls: "calls (snd (set_fields d1 d2 d3 d4 s)) = calls s"
  by (simp add: set_fields_def Let_def split: sum.splits)

lemma handleProductSelect_try_calls:
  "calls (snd (handleProductSelect_try r1 r2 r3 r4 s)) = calls s"
proof (cases "all_fulfilled [r1, r2, r3, r4]")
  case None
  then show ?thesis by (simp add: handleProductSelect_try_def)
next
  case (Some xs)
  then obtain a b c d where r: "r1 = Fulfilled a" "r2 = Fulfilled b" "r3 = Fulfilled c" "r4 = Fulfilled d"
    by (cases r1; cases r2; cases r3; cases r4) auto
  show ?thesis
  proof (cases "all_json [a, b, c, d]")
    case None
    then show ?thesis using r by (simp add: handleProductSelect_try_def)
  next
    case (Some ds)
    then obtain d1 d2 d3 d4 where "all_json [a, b, c, d] = Some [d1, d2, d3, d4]"
      by (auto split: option.splits)
    then show ?thesis using r by (simp add: handleProductSelect_try_def set_fields_calls)
  qed
qed

lemma handleSearch_try_calls: "calls (snd (handleSearch_try res s)) = calls s"
  by (simp add: handleSearch_try_def split: fetch_result.splits option.splits)

lemma home_step_calls:
  "length (filter is_GET (calls (home_step ev s))) =
     length (filter is_GET (calls s)) + (if is_Select ev then 4 else 0)"
proof (cases ev)
  case (Search q)
  then show ?thesis by (simp add: handleSearch_start_def)
next
  case (SearchSettled res)
  then show ?thesis
    by (simp add: handleSearch_settle_def try_catch_finally_calls[OF handleSearch_try_calls])
next
  case (Select product)
  then show ?thesis by (simp add: handleProductSelect_start_def)
next
  case (SelectSettled r1 r2 r3 r4)
  then show ?thesis
    by (simp add: handleProductSelect_settle_def
        try_catch_finally_calls[OF handleProductSelect_try_calls])
qed

lemma home_run_calls:
  "length (filter is_GET (calls (home_run evs s))) =
     length (filter is_GET (calls s)) + 4 * length (filter is_Select evs)"
  by (induction evs arbitrary: s) (simp_all add: home_step_calls)

text \<open>
  C3 (as the code has it).  Every call of \<^verbatim>\<open>handleProductSelect\<close> issues the four
  analytics requests of its product, whatever is in flight: after any sequence of
  events the number of analytics requests has grown by four for each selection in it.
\<close>

theorem every_selection_issues_four_calls:
  "calls (handleProductSelect_start product s) =
     calls s @
       [GET (''http://localhost:8000/products/'' @ product_id product @ ''/sales''),
        GET (''http://localhost:8000/products/'' @ product_id product @ ''/forecast''),
        GET (''http://localhost:8000/products/'' @ product_id product @ ''/segments''),
        GET (''http://localhost:8000/products/'' @ product_id product @ ''/insights'')] \<and>
   length (filter is_GET (calls (home_run evs s))) =
     length (filter is_GET (calls s)) + 4 * length (filter is_Select evs)"
  by (simp add: handleProductSelect_start_def home_run_calls)

text \<open>
  C3 as written fails on the second of two selections of one product: the first leaves
  four requests in flight and the page loading, the second issues four more.
\<close>

theorem reselection_issues_four_more_calls:
  "length (calls (home_run [Select nike] home_init)) = 4 \<and>
   page_loading (home_run [Select nike] home_init) \<and>
   length (calls (home_run [Select nike, Select nike] home_init)) = 8"
  by (simp add: home_init_def handleProductSelect_start_def)

text \<open>
  C4.  When the search call is rejected, or answered with a status outside 200..299, the
  handler ends with no exception and the search results are the two fallback products,
  \<^verbatim>\<open>nike_air_max_270\<close> then \<^verbatim>\<open>adidas_ultraboost_22\<close>.
\<close>

theorem search_failure_shows_fallback_products:
  assumes "res = Rejected \<or> (\<exists>r. res = Fulfilled r \<and> \<not> ok r)"
  shows "handleSearch_settle res s = (None, s\<lparr>searchResults := mockResults, page_loading := False\<rparr>) \<and>
         (\<exists>p1 p2. mockResults = JArr [p1, p2] \<and>
            get_prop p1 ''product_id'' = Inr (Some (JStr ''nike_air_max_270'')) \<and>
            get_prop p2 ''product_id'' = Inr (Some (JStr ''adidas_ultraboost_22'')))"
proof
  show "handleSearch_settle res s = (None, s\<lparr>searchResults := mockResults, page_loading := False\<rparr>)"
    using assms
    by (auto simp: handleSearch_settle_def handleSearch_try_def try_catch_finally_def
        split: option.splits)
  show "\<exists>p1 p2. mockResults = JArr [p1, p2] \<and>
            get_prop p1 ''product_id'' = Inr (Some (JStr ''nike_air_max_270'')) \<and>
            get_prop p2 ''product_id'' = Inr (Some (JStr ''adidas_ultraboost_22''))"
    by (simp add: mockResults_def)
qed

theorem search_failure_shows_fallback_products_witness:
  "handleSearch_settle
      (Fulfilled \<lparr>status = 500, body_text = Some ''Internal Server Error'', body_json = None\<rparr>)
      (handleSearch_start ''nike running shoes'' home_init) =
     (None, (handleSearch_start ''nike running shoes'' home_init)
              \<lparr>searchResults := mockResults, page_loading := False\<rparr>) \<and>
   handleSearch_settle Rejected home_init =
     (None, home_init\<lparr>searchResults := mockResults, page_loading := False\<rparr>)"
  using search_failure_shows_fallback_products
      [of "Fulfilled \<lparr>status = 500, body_text = Some ''Internal Server Error'', body_json = None\<rparr>"
          "handleSearch_start ''nike running shoes'' home_init"]
    search_failure_shows_fallback_products [of Rejected home_init]
  by (simp add: ok_def)

section \<open>The agent panel\<close>

text \<open>
  C6 (as the code has it).  While \<open>loading\<close> is set the send button is disabled: a
  click on it starts no request and leaves the state, and the request in flight,
  as they are; the click is ignored, no busy condition is reported.
  \<^verbatim>\<open>handleAgentQuery\<close> itself returns without effect when the trimmed query is
  empty.  On the chat tab, when nothing is loading and the query is not blank, the click
  starts exactly one request and sets \<open>loading\<close>.
\<close>

theorem disabled_send_button_starts_no_request:
  "(loading s \<longrightarrow> agent_step nt productId ClickSend s = s) \<and>
   (trim (query s) = [] \<longrightarrow> handleAgentQuery_start productId s = s) \<and>
   (activeTab s = TabChat \<and> \<not> loading s \<and> trim (query s) \<noteq> [] \<longrightarrow>
      agent_step nt productId ClickSend s =
        s\<lparr>loading := True,
          requests := requests s @
            [POST ''http://localhost:8000/agent/analyze''
               [(''query'', JStr (trim (query s))), (''product_id'', JStr productId)]]\<rparr>)"
  by (simp add: handleAgentQuery_start_def)

theorem disabled_send_button_starts_no_request_witness:
  "agent_step no_digits ''nike_air_max_270'' ClickSend
      (agent_run no_digits
         [(''nike_air_max_270'', ChangeQuery ''price?''), (''nike_air_max_270'', ClickSend)]
         agent_init) =
   agent_run no_digits
     [(''nike_air_max_270'', ChangeQuery ''price?''), (''nike_air_max_270'', ClickSend)]
     agent_init \<and>
   handleAgentQuery_start ''nike_air_max_270'' agent_init = agent_init \<and>
   requests
     (agent_step no_digits ''nike_air_max_270'' ClickSend
        (agent_run no_digits [(''nike_air_max_270'', ChangeQuery ''price?'')] agent_init)) =
   [POST ''http://localhost:8000/agent/analyze''
      [(''query'', JStr ''price?''), (''product_id'', JStr ''nike_air_max_270'')]]"
  using disabled_send_button_starts_no_request
    [where s = "agent_run no_digits
         [(''nike_air_max_270'', ChangeQuery ''price?''), (''nike_air_max_270'', ClickSend)]
         agent_init"
       and nt = no_digits and productId = "''nike_air_max_270''"]
    disabled_send_button_starts_no_request
    [where s = agent_init and nt = no_digits and productId = "''nike_air_max_270''"]
    disabled_send_button_starts_no_request
    [where s = "agent_run no_digits [(''nike_air_max_270'', ChangeQuery ''price?'')] agent_init"
       and nt = no_digits and productId = "''nike_air_max_270''"]
  by (simp add: agent_init_def handleAgentQuery_start_def trim_def is_space_def)

text \<open>
  C6 as written fails on a call of \<^verbatim>\<open>handleAgentQuery\<close> while a query is loading,
  here through the Enter key of the input: a second request is started.
\<close>

theorem query_while_loading_starts_second_request:
  "loading
     (agent_run no_digits
        [(''nike_air_max_270'', ChangeQuery ''price?''), (''nike_air_max_270'', KeyPress ''Enter'')]
        agent_init) \<and>
   requests
     (agent_run no_digits
        [(''nike_air_max_270'', ChangeQuery ''price?''), (''nike_air_max_270'', KeyPress ''Enter''),
         (''nike_air_max_270'', KeyPress ''Enter'')]
        agent_init) =
   [POST ''http://localhost:8000/agent/analyze''
      [(''query'', JStr ''price?''), (''product_id'', JStr ''nike_air_max_270'')],
    POST ''http://localhost:8000/agent/analyze''
      [(''query'', JStr ''price?''), (''product_id'', JStr ''nike_air_max_270'')]]"
  by (simp add: agent_init_def handleAgentQuery_start_def trim_def is_space_def)

lemma handleAgentQuery_settle_keeps:
  "suggestions (snd (handleAgentQuery_settle nt res s)) = suggestions s \<and>
   requests (snd (handleAgentQuery_settle nt res s)) = requests s"
  by (simp add: handleAgentQuery_settle_def handleAgentQuery_try_def try_catch_finally_def
      split: fetch_result.splits option.splits sum.splits)

lemma agent_step_keeps_suggestions:
  assumes "truthy (Some (suggestions s))" and "\<not> is_suggestions_response ev"
  shows "suggestions (agent_step nt productId ev s) = suggestions s \<and>
         suggestion_calls (agent_step nt productId ev s) = suggestion_calls s"
proof (cases ev)
  case (AnalyzeSettled res)
  then show ?thesis
    by (simp add: suggestion_calls_def handleAgentQuery_settle_keeps)
next
  case (SuggestionsSettled res)
  then show ?thesis using assms(2) by simp
qed (use assms(1) in \<open>simp_all add: suggestion_calls_def handleAgentQuery_start_def\<close>)

lemma agent_run_keeps_suggestions:
  assumes "truthy (Some (suggestions s))"
    and "\<forall>pe \<in> set evs. \<not> is_suggestions_response (snd pe)"
  shows "suggestions (agent_run nt evs s) = suggestions s \<and>
         suggestion_calls (agent_run nt evs s) = suggestion_calls s"
  using assms
proof (induction evs arbitrary: s)
  case Nil
  then show ?case by simp
next
  case (Cons pe evs)
  obtain productId ev where pe: "pe = (productId, ev)" by (cases pe)
  have ev: "\<not> is_suggestions_response ev" using Cons.prems(2) pe by simp
  have step: "suggestions (agent_step nt productId ev s) = suggestions s"
    "suggestion_calls (agent_step nt productId ev s) = suggestion_calls s"
    using agent_step_keeps_suggestions[OF Cons.prems(1) ev] by simp_all
  have "truthy (Some (suggestions (agent_step nt productId ev s)))"
    using step(1) Cons.prems(1) by simp
  then show ?case
    using Cons.IH[of "agent_step nt productId ev s"] Cons.prems(2) step pe by simp
qed

text \<open>
  C7 (as the code has it).  Once a suggestions result is stored, clicks on either tab,
  edits of the query, queries and their answers, for the same product or another, issue
  no suggestions request and keep the stored result.  While none is stored, every click
  on the suggestions tab issues one request.
\<close>

theorem stored_suggestions_are_not_refetched:
  "(truthy (Some (suggestions s)) \<and> (\<forall>pe \<in> set evs. \<not> is_suggestions_response (snd pe)) \<longrightarrow>
      suggestions (agent_run nt evs s) = suggestions s \<and>
      suggestion_calls (agent_run nt evs s) = suggestion_calls s) \<and>
   (\<not> truthy (Some (suggestions s)) \<longrightarrow>
      suggestion_calls (agent_step nt productId ClickSuggestionsTab s) = suggestion_calls s + 1)"
proof (intro conjI impI)
  assume "truthy (Some (suggestions s)) \<and> (\<forall>pe \<in> set evs. \<not> is_suggestions_response (snd pe))"
  then show "suggestions (agent_run nt evs s) = suggestions s"
    and "suggestion_calls (agent_run nt evs s) = suggestion_calls s"
    using agent_run_keeps_suggestions by blast+
next
  assume "\<not> truthy (Some (suggestions s))"
  then show "suggestion_calls (agent_step nt productId ClickSuggestionsTab s) = suggestion_calls s + 1"
    by (simp add: suggestion_calls_def loadSuggestions_start_def)
qed

theorem stored_suggestions_are_not_refetched_witness:
  "suggestion_calls
     (agent_run no_digits
        [(''nike_air_max_270'', ClickChatTab), (''nike_air_max_270'', ClickSuggestionsTab),
         (''adidas_ultraboost_22'', ClickSuggestionsTab)]
        (agent_run no_digits
           [(''nike_air_max_270'', ClickSuggestionsTab),
            (''nike_air_max_270'', SuggestionsSettled (answer (suggestions_of ''nike_air_max_270'')))]
           agent_init)) = 1 \<and>
   suggestion_calls (agent_step no_digits ''nike_air_max_270'' ClickSuggestionsTab agent_init) = 1"
  using stored_suggestions_are_not_refetched
    [where s = "agent_run no_digits
           [(''nike_air_max_270'', ClickSuggestionsTab),
            (''nike_air_max_270'', SuggestionsSettled (answer (suggestions_of ''nike_air_max_270'')))]
           agent_init"
       and evs = "[(''nike_air_max_270'', ClickChatTab), (''nike_air_max_270'', ClickSuggestionsTab),
         (''adidas_ultraboost_22'', ClickSuggestionsTab)]"
       and nt = no_digits]
    stored_suggestions_are_not_refetched
    [where s = agent_init and nt = no_digits and productId = "''nike_air_max_270''"]
  by (simp add: agent_init_def loadSuggestions_start_def loadSuggestions_settle_def
      loadSuggestions_try_def try_catch_finally_def answer_def ok_def suggestions_of_def
      suggestion_calls_def)

text \<open>
  C7 as written fails on two clicks on the suggestions tab before the first answer
  arrives: two requests for the same product.
\<close>

theorem two_clicks_fetch_suggestions_twice:
  "requests
     (agent_run no_digits
        [(''nike_air_max_270'', ClickSuggestionsTab), (''nike_air_max_270'', ClickSuggestionsTab)]
        agent_init) =
   [GET ''http://localhost:8000/agent/suggestions/nike_air_max_270'',
    GET ''http://localhost:8000/agent/suggestions/nike_air_max_270'']"
  by (simp add: agent_init_def loadSuggestions_start_def)

end
